theory Spec2Isabelle
  imports Main
begin

text \<open>
  rstcheck checks the code blocks of reStructuredText documents: a docutils visitor hands
  every literal block with the class \<open>code-block\<close> to the checker of its language and
  collects \<open>True\<close> or \<open>False\<close> per block; \<open>main\<close> counts the \<open>False\<close> entries of all
  files.  The functions of \<open>rstcheck.py\<close> are embedded with explicit state (the visitor's
  summary and what was printed on standard error) and with exceptions as results.
\<close>

section \<open>Text as the Python runtime handles it\<close>

text \<open>
  A Python text and a Python byte string are both a \<open>string\<close> here: a text is held as
  the bytes of its UTF-8 encoding, which concatenation and comparison respect.  What the
  interpreter does beyond that (decoding bytes, \<open>str.strip\<close>) is not defined here but
  taken from the surroundings of the run.  The ANSI escapes are the module constants
  \<open>GREEN\<close> and \<open>RED\<close>; \<open>END\<close> is the local \<open>end\<close> of \<open>inform\<close>.
\<close>

definition GREEN :: string where
  "GREEN = CHR 0x1B # ''[32m''"

definition RED :: string where
  "RED = CHR 0x1B # ''[31m''"

definition END :: string where
  "END = CHR 0x1B # ''[0m''"

definition newline :: string where
  "newline = [CHR 0x0A]"

fun join :: "string \<Rightarrow> string list \<Rightarrow> string" where
  "join sep [] = []"
| "join sep [x] = x"
| "join sep (x # y # ys) = x @ sep @ join sep (y # ys)"

definition digit :: "nat \<Rightarrow> char" where
  "digit d = ''0123456789'' ! d"

fun str_nat :: "nat \<Rightarrow> string" where
  "str_nat n = (if n < 10 then [digit n] else str_nat (n div 10) @ [digit (n mod 10)])"

declare str_nat.simps [simp del]

text \<open>What \<open>'{}'.format(v)\<close> gives for a value that is \<open>None\<close> or a number / a text.\<close>

definition format_line :: "nat option \<Rightarrow> string" where
  "format_line l = (case l of None \<Rightarrow> ''None'' | Some n \<Rightarrow> str_nat n)"

definition format_language :: "string option \<Rightarrow> string" where
  "format_language l = (case l of None \<Rightarrow> ''None'' | Some t \<Rightarrow> t)"

text \<open>
  Reading a decimal numeral: whether a text consists of digits, the number it denotes,
  and whether a text is the numeral of a number (digits only, no leading zero).  The
  printed line numbers and counts are stated through these.
\<close>

definition is_digit :: "char \<Rightarrow> bool" where
  "is_digit c = (c \<in> set ''0123456789'')"

definition digit_value :: "char \<Rightarrow> nat" where
  "digit_value c = of_char c - 48"

definition decimal_value :: "string \<Rightarrow> nat" where
  "decimal_value t = foldl (\<lambda>a c. 10 * a + digit_value c) 0 t"

definition is_decimal :: "string \<Rightarrow> nat \<Rightarrow> bool" where
  "is_decimal t n = (t \<noteq> [] \<and> list_all is_digit t \<and> (t = ''0'' \<or> hd t \<noteq> CHR ''0'')
                     \<and> decimal_value t = n)"


section \<open>Exceptions, results and the document tree\<close>

datatype exn =
    SkipNode
  | SystemMessage string
  | OSError string
  | IOError string
  | TypeError string
  | UnicodeDecodeError string

datatype 'a result = Return 'a | Raise exn

text \<open>
  An element of the docutils tree: its class name (\<open>literal_block\<close>, \<open>paragraph\<close>, ...),
  \<open>node['classes']\<close>, the attribute \<open>language\<close> (\<open>None\<close> when the element has none),
  \<open>node.rawsource\<close> and \<open>node.line\<close> (\<open>None\<close> when docutils recorded no line).
\<close>

record element =
  tagname :: string
  classes :: "string list"
  language :: "string option"
  rawsource :: string
  line :: "nat option"

datatype node = Text string | Element element "node list"

text \<open>
  \<open>node_has_class\<close>: a single class name is first wrapped in a list; the only caller
  passes \<open>'code-block'\<close>, written here as the list it becomes.
\<close>

definition node_has_class :: "element \<Rightarrow> string list \<Rightarrow> bool" where
  "node_has_class node cnames = list_ex (\<lambda>cname. cname \<in> set (classes node)) cnames"

text \<open>
  \<open>CodeBlockDirective.run\<close>: \<open>self.arguments[0]\<close> raises \<open>IndexError\<close> on an empty
  argument list, and the handler puts the empty text in its place.  The literal block is
  built by \<open>nodes.literal_block(code, code)\<close>: the raw source is the code, the only
  child is the code as a text node (docutils gives a text element no child for the empty
  text), no line is set, and \<open>code-block\<close> is appended to its empty list of classes.
\<close>

definition CodeBlockDirective_run :: "string list \<Rightarrow> string list \<Rightarrow> node list" where
  "CodeBlockDirective_run arguments content =
     (let lang = (case arguments of [] \<Rightarrow> '''' | a # _ \<Rightarrow> a);
          code = join newline content
      in [Element \<lparr>tagname = ''literal_block'', classes = [] @ [''code-block''],
                    language = Some lang, rawsource = code, line = None\<rparr>
            (if code = [] then [] else [Text code])])"


section \<open>The language registry\<close>

definition error_flag :: "bool \<Rightarrow> string list" where
  "error_flag strict_warnings = (if strict_warnings then [''-Werror''] else [])"

text \<open>The dictionary literal of \<open>visit_literal_block\<close>, in the order it is written.\<close>

definition checkers :: "bool \<Rightarrow> (string \<times> string \<times> string list) list" where
  "checkers strict_warnings =
     [(''bash'', (''.bash'', [''bash'', ''-n''])),
      (''c'', (''.c'', [''gcc'', ''-fsyntax-only'', ''-O3'', ''-std=c99'',
                        ''-pedantic'', ''-Wall'', ''-Wextra''] @ error_flag strict_warnings)),
      (''cpp'', (''.cpp'', [''g++'', ''-std=c++0x'', ''-pedantic'', ''-fsyntax-only'',
                            ''-O3'', ''-Wall'', ''-Wextra''] @ error_flag strict_warnings)),
      (''python'', (''.py'', [''python'', ''-m'', ''compileall'', ''-q'']))]"

text \<open>\<open>{...}.get(language)\<close>: \<open>None\<close> is no key of the dictionary.\<close>

definition registry :: "bool \<Rightarrow> string option \<Rightarrow> (string \<times> string list) option" where
  "registry strict_warnings lang =
     (case lang of None \<Rightarrow> None | Some t \<Rightarrow> map_of (checkers strict_warnings) t)"


section \<open>The operating system and the visitor\<close>

text \<open>
  What the program asks of its surroundings is read from a record of answers:
  whether standard error is a terminal; the text of a file (\<open>Inl\<close>: \<open>open\<close> failed);
  the docutils parser, given the halt-level override, the text and the source path
  (\<open>Inl\<close>: the fatal \<open>SystemMessage\<close>); \<open>NamedTemporaryFile\<close> with \<open>write\<close> and \<open>flush\<close>,
  given suffix and text (\<open>Inl\<close>: the \<open>OSError\<close>, \<open>Inr\<close>: the file's name); and \<open>Popen\<close> with
  \<open>communicate\<close>, given the command line (\<open>Inl\<close>: the \<open>OSError\<close> of a failed launch,
  \<open>Inr\<close>: return code and the bytes of standard output and of standard error).  Two
  functions of the interpreter are taken from the same record: \<open>bytes.decode('utf-8')\<close>
  (\<open>None\<close>: it raises \<open>UnicodeDecodeError\<close>) and \<open>str.strip\<close>, whose set of whitespace
  is the interpreter's.  Within one run the same request gets the same answer; two runs
  are two such records.
\<close>

record os =
  isatty :: bool
  read_file :: "string \<Rightarrow> string + string"
  parse :: "bool \<Rightarrow> string \<Rightarrow> string \<Rightarrow> string + node"
  NamedTemporaryFile :: "string \<Rightarrow> string \<Rightarrow> string + string"
  Popen :: "string list \<Rightarrow> string + int \<times> string \<times> string"
  decode :: "string \<Rightarrow> string option"
  strip :: "string \<Rightarrow> string"

text \<open>Standard error is the list of the texts printed so far, one entry per \<open>print\<close>.\<close>

definition print_stderr :: "string \<Rightarrow> string list \<Rightarrow> string list" where
  "print_stderr t err = err @ [t]"

definition colored :: "os \<Rightarrow> string \<Rightarrow> string \<Rightarrow> string" where
  "colored env t color = (if isatty env then color @ t @ END else t)"

definition inform :: "os \<Rightarrow> string \<Rightarrow> string \<Rightarrow> string list \<Rightarrow> string list" where
  "inform env t color err = print_stderr (colored env t color) err"

text \<open>The visitor's \<open>self.summary\<close>, and standard error.\<close>

record state =
  summary :: "bool list"
  stderr :: "string list"

definition failure_message :: "string \<Rightarrow> element \<Rightarrow> string \<Rightarrow> string" where
  "failure_message filename node output =
     filename @ '':'' @ format_line (line node) @ '': '' @ output"

text \<open>
  \<open>CheckTranslator.visit_literal_block\<close>.  It returns (\<open>Return\<close>) for a literal block
  without the class, and raises otherwise: \<open>SkipNode\<close> at its end, or the error of
  \<open>NamedTemporaryFile\<close>, of \<open>Popen\<close> or of decoding standard output and then standard
  error, which nothing in the method catches.
\<close>

definition visit_literal_block ::
  "os \<Rightarrow> bool \<Rightarrow> string \<Rightarrow> element \<Rightarrow> state \<Rightarrow> unit result \<times> state" where
  "visit_literal_block env strict_warnings filename node s =
     (if \<not> node_has_class node [''code-block''] then (Return (), s)
      else
        (case registry strict_warnings (language node) of
           Some (extension, arguments) \<Rightarrow>
             (case NamedTemporaryFile env extension (rawsource node) of
                Inl e \<Rightarrow> (Raise (OSError e), s)
              | Inr name \<Rightarrow>
                  (let s1 = s\<lparr>stderr := inform env ''Okay'' GREEN
                                          (print_stderr (rawsource node) (stderr s))\<rparr>
                   in case Popen env (arguments @ [name]) of
                        Inl e \<Rightarrow> (Raise (OSError e), s1)
                      | Inr (returncode, out, err) \<Rightarrow>
                          (case decode env out of
                             None \<Rightarrow> (Raise (UnicodeDecodeError out), s1)
                           | Some out_text \<Rightarrow>
                               (case decode env err of
                                  None \<Rightarrow> (Raise (UnicodeDecodeError err), s1)
                                | Some err_text \<Rightarrow>
                                    (let output = strip env (join newline [out_text, err_text])
                                     in if returncode = 0
                                        then (Raise SkipNode,
                                              s1\<lparr>summary := summary s1 @ [True]\<rparr>)
                                        else (Raise SkipNode,
                                              s1\<lparr>stderr := inform env
                                                     (failure_message filename node output) RED
                                                     (stderr s1),
                                                  summary := summary s1 @ [False]\<rparr>))))))
         | None \<Rightarrow>
             (let s1 = s\<lparr>stderr := inform env
                           (''Unknown language: '' @ format_language (language node)) RED
                           (stderr s)\<rparr>
              in (Raise SkipNode,
                  if strict_warnings then s1\<lparr>summary := summary s1 @ [False]\<rparr> else s1))))"

section \<open>Traversal, writer, check and main\<close>

text \<open>
  Modelled from the spec: docutils' \<open>NodeVisitor.dispatch_visit\<close> and \<open>Node.walkabout\<close>,
  which are not part of this repository (spec 4.4: every node is visited once, depth
  first, in document order; the skip-node signal prevents descending into the node's
  children).  The visitor has a method for \<open>literal_block\<close> only; \<open>unknown_visit\<close> and
  \<open>unknown_departure\<close> do nothing.  An exception other than \<open>SkipNode\<close> leaves the walk.
\<close>

definition dispatch_visit ::
  "os \<Rightarrow> bool \<Rightarrow> string \<Rightarrow> element \<Rightarrow> state \<Rightarrow> unit result \<times> state" where
  "dispatch_visit env strict_warnings filename node s =
     (if tagname node = ''literal_block''
      then visit_literal_block env strict_warnings filename node s
      else (Return (), s))"

fun walkabout :: "os \<Rightarrow> bool \<Rightarrow> string \<Rightarrow> node \<Rightarrow> state \<Rightarrow> unit result \<times> state"
  and walk_children :: "os \<Rightarrow> bool \<Rightarrow> string \<Rightarrow> node list \<Rightarrow> state \<Rightarrow> unit result \<times> state"
  where
  "walkabout env strict_warnings filename (Text t) s = (Return (), s)"
| "walkabout env strict_warnings filename (Element node kids) s =
     (case dispatch_visit env strict_warnings filename node s of
        (Return u, s') \<Rightarrow> walk_children env strict_warnings filename kids s'
      | (Raise e, s') \<Rightarrow> if e = SkipNode then (Return (), s') else (Raise e, s'))"
| "walk_children env strict_warnings filename [] s = (Return (), s)"
| "walk_children env strict_warnings filename (n # ns) s =
     (case walkabout env strict_warnings filename n s of
        (Return u, s') \<Rightarrow> walk_children env strict_warnings filename ns s'
      | (Raise e, s') \<Rightarrow> (Raise e, s'))"

text \<open>
  \<open>CheckWriter.translate\<close>: a new visitor with an empty summary walks the document;
  the writer's summary grows by the visitor's only when the walk returns.  The result
  holds the writer's summary and standard error.
\<close>

definition translate ::
  "os \<Rightarrow> bool \<Rightarrow> string \<Rightarrow> node \<Rightarrow> bool list \<Rightarrow> string list
     \<Rightarrow> unit result \<times> bool list \<times> string list" where
  "translate env strict_warnings filename document writer_summary err =
     (case walkabout env strict_warnings filename document \<lparr>summary = [], stderr = err\<rparr> of
        (Return u, visitor) \<Rightarrow> (Return (), writer_summary @ summary visitor, stderr visitor)
      | (Raise e, visitor) \<Rightarrow> (Raise e, writer_summary, stderr visitor))"

text \<open>
  Modelled from the spec: docutils' \<open>core.publish_string\<close>, which is not part of this
  repository (spec 6: the parser gives the document tree or raises a fatal markup error;
  the writer then translates the tree).
\<close>

definition publish_string ::
  "os \<Rightarrow> bool \<Rightarrow> string \<Rightarrow> string \<Rightarrow> bool \<Rightarrow> bool list \<Rightarrow> string list
     \<Rightarrow> unit result \<times> bool list \<times> string list" where
  "publish_string env strict_warnings filename contents halt writer_summary err =
     (case parse env halt contents filename of
        Inl msg \<Rightarrow> (Raise (SystemMessage msg), writer_summary, err)
      | Inr document \<Rightarrow> translate env strict_warnings filename document writer_summary err)"

text \<open>\<open>check\<close> returns \<open>False\<close> or the writer's summary: a value of two Python types.\<close>

datatype pyval = PyBool bool | PyList "bool list"

definition is_SystemMessage :: "exn \<Rightarrow> bool" where
  "is_SystemMessage e = (case e of SystemMessage m \<Rightarrow> True | _ \<Rightarrow> False)"

definition check ::
  "os \<Rightarrow> string \<Rightarrow> bool \<Rightarrow> bool \<Rightarrow> string list \<Rightarrow> pyval result \<times> string list" where
  "check env filename strict_rst strict_warnings err =
     (case read_file env filename of
        Inl e \<Rightarrow> (Raise (IOError e), err)
      | Inr contents \<Rightarrow>
          (case publish_string env strict_warnings filename contents strict_rst [] err of
             (Return u, writer_summary, err') \<Rightarrow> (Return (PyList writer_summary), err')
           | (Raise e, writer_summary, err') \<Rightarrow>
               if is_SystemMessage e then (Return (PyBool False), err')
               else (Raise e, err')))"

text \<open>
  The loop of \<open>main\<close>: \<open>summary += check(...)\<close> extends the list by a list, and raises
  \<open>TypeError\<close> when the right-hand side is a \<open>bool\<close>.
\<close>

definition not_iterable :: string where
  "not_iterable = CHR 0x27 # ''bool'' @ CHR 0x27 # '' object is not iterable''"

fun check_files ::
  "os \<Rightarrow> bool \<Rightarrow> bool \<Rightarrow> string list \<Rightarrow> bool list \<Rightarrow> string list
     \<Rightarrow> bool list result \<times> string list" where
  "check_files env strict_rst strict_warnings [] summary_so_far err = (Return summary_so_far, err)"
| "check_files env strict_rst strict_warnings (filename # files) summary_so_far err =
     (case check env filename strict_rst strict_warnings err of
        (Return (PyList xs), err') \<Rightarrow>
           check_files env strict_rst strict_warnings files (summary_so_far @ xs) err'
      | (Return (PyBool b), err') \<Rightarrow> (Raise (TypeError not_iterable), err')
      | (Raise e, err') \<Rightarrow> (Raise e, err'))"

definition count_failures :: "bool list \<Rightarrow> nat" where
  "count_failures summary_list = length (filter (\<lambda>v. \<not> v) summary_list)"

text \<open>\<open>main\<close>, after \<open>argparse\<close> has given the files (at least one) and the two flags.\<close>

definition main ::
  "os \<Rightarrow> string list \<Rightarrow> bool \<Rightarrow> bool \<Rightarrow> string list \<Rightarrow> int result \<times> string list" where
  "main env files strict_rst strict_warnings err =
     (case check_files env strict_rst strict_warnings files [] err of
        (Return summary_list, err') \<Rightarrow>
          (let failures = count_failures summary_list
           in (Return (if failures \<noteq> 0 then 1 else 0),
               inform env (str_nat failures @ '' failure(s)'')
                 (if failures \<noteq> 0 then RED else GREEN) err'))
      | (Raise e, err') \<Rightarrow> (Raise e, err'))"

text \<open>
  \<open>sys.exit(main())\<close>: the returned number is the exit status; an exception that
  leaves \<open>main\<close> ends the interpreter with a traceback and status 1.
\<close>

definition exit_status :: "int result \<Rightarrow> int" where
  "exit_status r = (case r of Return code \<Rightarrow> code | Raise e \<Rightarrow> 1)"

section \<open>The code blocks of a document\<close>

text \<open>
  The nodes the visitor checks: literal blocks with the class \<open>code-block\<close>; the list of
  them in a document, in document order; and the documents in which no code block lies
  inside another, as in every tree the parser builds (a literal block holds text).
\<close>

definition is_code_block :: "element \<Rightarrow> bool" where
  "is_code_block node = (tagname node = ''literal_block'' \<and> node_has_class node [''code-block''])"

fun code_blocks :: "node \<Rightarrow> element list"
  and code_blocks_list :: "node list \<Rightarrow> element list" where
  "code_blocks (Text t) = []"
| "code_blocks (Element node kids) =
     (if is_code_block node then [node] else []) @ code_blocks_list kids"
| "code_blocks_list [] = []"
| "code_blocks_list (n # ns) = code_blocks n @ code_blocks_list ns"

fun flat :: "node \<Rightarrow> bool"
  and flat_list :: "node list \<Rightarrow> bool" where
  "flat (Text t) = True"
| "flat (Element node kids) =
     ((if is_code_block node then code_blocks_list kids = [] else True) \<and> flat_list kids)"
| "flat_list [] = True"
| "flat_list (n # ns) = (flat n \<and> flat_list ns)"

section \<open>The outcomes of the specification\<close>

text \<open>
  The Check Outcome of the specification (section 3), the outcome it gives one block
  (sections 4.2 to 4.4, launch and materialisation errors included; the diagnostic of a
  failed check is the two streams, concatenated) and the failures it counts (section
  4.5): these definitions follow the words of the specification and are what the code
  is compared with.
\<close>

datatype outcome = Passed | Failed string "nat option" | UnknownLanguage "string option"

definition spec_outcome :: "os \<Rightarrow> bool \<Rightarrow> element \<Rightarrow> outcome" where
  "spec_outcome env strict_warnings node =
     (case registry strict_warnings (language node) of
        None \<Rightarrow> UnknownLanguage (language node)
      | Some (extension, arguments) \<Rightarrow>
          (case NamedTemporaryFile env extension (rawsource node) of
             Inl e \<Rightarrow> Failed e (line node)
           | Inr name \<Rightarrow>
               (case Popen env (arguments @ [name]) of
                  Inl e \<Rightarrow> Failed e (line node)
                | Inr (returncode, out, err) \<Rightarrow>
                    if returncode = 0 then Passed
                    else Failed (out @ err) (line node))))"

definition counts_as_failure :: "bool \<Rightarrow> outcome \<Rightarrow> bool" where
  "counts_as_failure strict_warnings out =
     (case out of Passed \<Rightarrow> False | Failed d l \<Rightarrow> True | UnknownLanguage t \<Rightarrow> strict_warnings)"

definition document_failures :: "os \<Rightarrow> bool \<Rightarrow> node \<Rightarrow> nat" where
  "document_failures env strict_warnings document =
     length (filter (counts_as_failure strict_warnings)
              (map (spec_outcome env strict_warnings) (code_blocks document)))"

text \<open>The document of an input file, when the file is read and the parser accepts it.\<close>

definition document_of :: "os \<Rightarrow> bool \<Rightarrow> string \<Rightarrow> node option" where
  "document_of env strict_rst filename =
     (case read_file env filename of
        Inl e \<Rightarrow> None
      | Inr contents \<Rightarrow>
          (case parse env strict_rst contents filename of
             Inl msg \<Rightarrow> None
           | Inr document \<Rightarrow> Some document))"

definition run_failures :: "os \<Rightarrow> bool \<Rightarrow> bool \<Rightarrow> string list \<Rightarrow> nat" where
  "run_failures env strict_rst strict_warnings files =
     sum_list (map (\<lambda>f. case document_of env strict_rst f of
                           None \<Rightarrow> 0
                         | Some d \<Rightarrow> document_failures env strict_warnings d) files)"


section \<open>What the code records, and runs without errors\<close>

text \<open>
  The entries \<open>visit_literal_block\<close> appends to the summary for a block with the given
  outcome: \<open>True\<close> after return code zero, \<open>False\<close> after another, and \<open>False\<close> for a
  language without registry entry under strict warnings only.
\<close>

definition recorded_as :: "bool \<Rightarrow> outcome \<Rightarrow> bool list" where
  "recorded_as strict_warnings out =
     (case out of Passed \<Rightarrow> [True] | Failed d l \<Rightarrow> [False]
      | UnknownLanguage t \<Rightarrow> if strict_warnings then [False] else [])"

definition recorded :: "os \<Rightarrow> bool \<Rightarrow> element list \<Rightarrow> bool list" where
  "recorded env sw blocks = concat (map (\<lambda>b. recorded_as sw (spec_outcome env sw b)) blocks)"

text \<open>
  The error that leaves \<open>visit_literal_block\<close> for a block, if one does: that of
  \<open>NamedTemporaryFile\<close>, or else that of \<open>Popen\<close>.
\<close>

definition launch_error :: "os \<Rightarrow> bool \<Rightarrow> element \<Rightarrow> string option" where
  "launch_error env strict_warnings node =
     (case registry strict_warnings (language node) of
        None \<Rightarrow> None
      | Some (extension, arguments) \<Rightarrow>
          (case NamedTemporaryFile env extension (rawsource node) of
             Inl e \<Rightarrow> Some e
           | Inr name \<Rightarrow>
               (case Popen env (arguments @ [name]) of Inl e \<Rightarrow> Some e | Inr r \<Rightarrow> None)))"

text \<open>
  Any error that leaves \<open>visit_literal_block\<close> for a block: those above, or else the
  \<open>UnicodeDecodeError\<close> of standard output, or else that of standard error.
\<close>

definition visit_error :: "os \<Rightarrow> bool \<Rightarrow> element \<Rightarrow> exn option" where
  "visit_error env strict_warnings node =
     (case registry strict_warnings (language node) of
        None \<Rightarrow> None
      | Some (extension, arguments) \<Rightarrow>
          (case NamedTemporaryFile env extension (rawsource node) of
             Inl e \<Rightarrow> Some (OSError e)
           | Inr name \<Rightarrow>
               (case Popen env (arguments @ [name]) of
                  Inl e \<Rightarrow> Some (OSError e)
                | Inr (returncode, out, err) \<Rightarrow>
                    (case decode env out of
                       None \<Rightarrow> Some (UnicodeDecodeError out)
                     | Some out_text \<Rightarrow>
                         (case decode env err of
                            None \<Rightarrow> Some (UnicodeDecodeError err)
                          | Some err_text \<Rightarrow> None)))))"

definition completes :: "os \<Rightarrow> bool \<Rightarrow> node \<Rightarrow> bool" where
  "completes env strict_warnings document =
     list_all (\<lambda>b. visit_error env strict_warnings b = None) (code_blocks document)"

text \<open>
  A run that meets no error: every file is read and parsed, no code block lies inside
  another, and for every code block with a registry language the temporary file is made,
  the checker is launched and both its streams are decoded.
\<close>

definition clean_run :: "os \<Rightarrow> bool \<Rightarrow> bool \<Rightarrow> string list \<Rightarrow> bool" where
  "clean_run env strict_rst strict_warnings files =
     list_all (\<lambda>f. case document_of env strict_rst f of
                      None \<Rightarrow> False
                    | Some d \<Rightarrow> flat d \<and> completes env strict_warnings d) files"

text \<open>
  What a checker decides for a text: the error of a failed materialisation or launch or
  of undecodable output, or whether the return code is zero.
\<close>

definition checker_verdict :: "os \<Rightarrow> string \<Rightarrow> string list \<Rightarrow> string \<Rightarrow> exn + bool" where
  "checker_verdict env extension arguments t =
     (case NamedTemporaryFile env extension t of
        Inl e \<Rightarrow> Inl (OSError e)
      | Inr name \<Rightarrow>
          (case Popen env (arguments @ [name]) of
             Inl e \<Rightarrow> Inl (OSError e)
           | Inr (returncode, out, err) \<Rightarrow>
               (case decode env out of
                  None \<Rightarrow> Inl (UnicodeDecodeError out)
                | Some out_text \<Rightarrow>
                    (case decode env err of
                       None \<Rightarrow> Inl (UnicodeDecodeError err)
                     | Some err_text \<Rightarrow> Inr (returncode = 0)))))"


section \<open>A sample run\<close>

text \<open>
  The end-to-end example of the specification (section 8): a document with a valid C
  block, an invalid C++ block and a block tagged \<open>ruby\<close>; and a file the parser rejects.
\<close>

definition c_block :: element where
  "c_block = \<lparr>tagname = ''literal_block'', classes = [''code-block''],
              language = Some ''c'', rawsource = ''int x;'', line = Some 4\<rparr>"

definition cpp_block :: element where
  "cpp_block = \<lparr>tagname = ''literal_block'', classes = [''code-block''],
                language = Some ''cpp'', rawsource = ''int y'', line = Some 8\<rparr>"

definition ruby_block :: element where
  "ruby_block = \<lparr>tagname = ''literal_block'', classes = [''code-block''],
                 language = Some ''ruby'', rawsource = ''puts 1'', line = Some 12\<rparr>"

definition sample_document :: node where
  "sample_document =
     Element \<lparr>tagname = ''document'', classes = [], language = None,
              rawsource = [], line = None\<rparr>
       [Element c_block [Text ''int x;''],
        Element \<lparr>tagname = ''paragraph'', classes = [], language = None,
                 rawsource = ''Some text.'', line = Some 6\<rparr> [Text ''Some text.''],
        Element cpp_block [Text ''int y''],
        Element ruby_block [Text ''puts 1'']]"

definition sample_read :: "string \<Rightarrow> string + string" where
  "sample_read f = (if f = ''doc.rst'' then Inr ''good text''
                    else if f = ''bad.rst'' then Inr ''bad text''
                    else Inl ''No such file or directory'')"

definition sample_parse :: "bool \<Rightarrow> string \<Rightarrow> string \<Rightarrow> string + node" where
  "sample_parse halt contents path =
     (if contents = ''good text'' then Inr sample_document else Inl ''Unexpected indentation.'')"

definition sample_popen :: "string list \<Rightarrow> string + int \<times> string \<times> string" where
  "sample_popen argv =
     (case argv of
        [] \<Rightarrow> Inl ''No such file or directory''
      | c # rest \<Rightarrow> if c = ''g++'' then Inr (1, [], ''error: expected initializer'')
                    else Inr (0, [], []))"

text \<open>
  The interpreter on the sample machines: no UTF-8 text holds the byte \<open>0xFF\<close>, and on
  ASCII text \<open>str.strip\<close> removes the ASCII whitespace at both ends.
\<close>

definition sample_decode :: "string \<Rightarrow> string option" where
  "sample_decode b = (if CHR 0xFF \<in> set b then None else Some b)"

definition ascii_space :: "char \<Rightarrow> bool" where
  "ascii_space c = (c \<in> set [CHR 0x09, CHR 0x0A, CHR 0x0B, CHR 0x0C, CHR 0x0D,
                                CHR 0x1C, CHR 0x1D, CHR 0x1E, CHR 0x1F, CHR 0x20])"

definition sample_strip :: "string \<Rightarrow> string" where
  "sample_strip t = rev (dropWhile ascii_space (rev (dropWhile ascii_space t)))"

definition sample_os :: os where
  "sample_os = \<lparr>isatty = False, read_file = sample_read, parse = sample_parse,
                NamedTemporaryFile = (\<lambda>suffix t. Inr (''/tmp/tmpa1'' @ suffix)),
                Popen = sample_popen, decode = sample_decode, strip = sample_strip\<rparr>"

text \<open>The same machine on a terminal, where temporary files get other names.\<close>

definition terminal_os :: os where
  "terminal_os = \<lparr>isatty = True, read_file = sample_read, parse = sample_parse,
                  NamedTemporaryFile = (\<lambda>suffix t. Inr (''/tmp/tmpb2'' @ suffix)),
                  Popen = sample_popen, decode = sample_decode, strip = sample_strip\<rparr>"

text \<open>A machine without \<open>gcc\<close>: launching it fails.\<close>

definition no_gcc_popen :: "string list \<Rightarrow> string + int \<times> string \<times> string" where
  "no_gcc_popen argv =
     (case argv of
        [] \<Rightarrow> Inl ''No such file or directory''
      | c # rest \<Rightarrow> if c = ''gcc'' then Inl ''No such file or directory''
                    else sample_popen argv)"

definition no_gcc_os :: os where
  "no_gcc_os = \<lparr>isatty = False, read_file = sample_read, parse = sample_parse,
                NamedTemporaryFile = (\<lambda>suffix t. Inr (''/tmp/tmpa1'' @ suffix)),
                Popen = no_gcc_popen, decode = sample_decode, strip = sample_strip\<rparr>"



definition latin1_popen :: "string list \<Rightarrow> string + int \<times> string \<times> string" where
  "latin1_popen argv =
     (case argv of
        [] \<Rightarrow> Inl ''No such file or directory''
      | c # rest \<Rightarrow> if c = ''gcc'' then Inr (0, [], [CHR 0xFF])
                    else sample_popen argv)"

definition latin1_os :: os where
  "latin1_os = \<lparr>isatty = False, read_file = sample_read, parse = sample_parse,
                NamedTemporaryFile = (\<lambda>suffix t. Inr (''/tmp/tmpa1'' @ suffix)),
                Popen = latin1_popen, decode = sample_decode, strip = sample_strip\<rparr>"

text \<open>A code block as a collaborator other than the directive may build it: without a language.\<close>

definition bare_block :: element where
  "bare_block = \<lparr>tagname = ''literal_block'', classes = [''code-block''],
                 language = None, rawsource = ''x = 1'', line = Some 3\<rparr>"


section \<open>The traversal records the outcomes of the code blocks\<close>

lemma dispatch_other:
  "\<not> is_code_block node \<Longrightarrow> dispatch_visit env sw fn node s = (Return (), s)"
  by (simp add: dispatch_visit_def visit_literal_block_def is_code_block_def)

lemma dispatch_code_block:
  assumes "is_code_block node" "dispatch_visit env sw fn node s = (r, s')"
  shows "(r = Raise SkipNode \<and> summary s' = summary s @ recorded_as sw (spec_outcome env sw node))
       \<or> (\<exists>e. r = Raise e \<and> e \<noteq> SkipNode \<and> summary s' = summary s)"
proof (cases "registry sw (language node)")
  case None
  with assms show ?thesis
    by (auto simp: dispatch_visit_def visit_literal_block_def is_code_block_def
        spec_outcome_def recorded_as_def Let_def)
next
  case (Some p)
  obtain extension arguments where p: "p = (extension, arguments)" by (cases p)
  show ?thesis
  proof (cases "NamedTemporaryFile env extension (rawsource node)")
    case (Inl e)
    with assms Some p show ?thesis
      by (auto simp: dispatch_visit_def visit_literal_block_def is_code_block_def)
  next
    case (Inr name)
    show ?thesis
    proof (cases "Popen env (arguments @ [name])")
      case (Inl e)
      with assms Some p Inr show ?thesis
        by (auto simp: dispatch_visit_def visit_literal_block_def is_code_block_def Let_def)
    next
      case r: (Inr res)
      obtain rc out err where res: "res = (rc, out, err)" by (cases res)
      show ?thesis
      proof (cases "decode env out")
        case None
        with assms Some p Inr r res show ?thesis
          by (auto simp: dispatch_visit_def visit_literal_block_def is_code_block_def Let_def)
      next
        case o: (Some out_text)
        show ?thesis
        proof (cases "decode env err")
          case None
          with assms Some p Inr r res o show ?thesis
            by (auto simp: dispatch_visit_def visit_literal_block_def is_code_block_def Let_def)
        next
          case (Some err_text)
          with assms \<open>registry sw (language node) = Some p\<close> p Inr r res o show ?thesis
            by (cases "rc = 0")
               (auto simp: dispatch_visit_def visit_literal_block_def is_code_block_def
                 spec_outcome_def recorded_as_def Let_def)
        qed
      qed
    qed
  qed
qed

lemma recorded_simps [simp]:
  "recorded env sw [] = []"
  "recorded env sw (b # bs) = recorded_as sw (spec_outcome env sw b) @ recorded env sw bs"
  "recorded env sw (as @ bs) = recorded env sw as @ recorded env sw bs"
  by (simp_all add: recorded_def)

lemma walkabout_code_block:
  assumes "is_code_block node"
    and "walkabout env sw fn (Element node kids) s = (Return (), s')"
  shows "summary s' = summary s @ recorded_as sw (spec_outcome env sw node)"
proof -
  obtain r s1 where d: "dispatch_visit env sw fn node s = (r, s1)" by force
  from dispatch_code_block[OF assms(1) d] show ?thesis
  proof
    assume "r = Raise SkipNode \<and> summary s1 = summary s @ recorded_as sw (spec_outcome env sw node)"
    with assms(2) d show ?thesis by simp
  next
    assume "\<exists>e. r = Raise e \<and> e \<noteq> SkipNode \<and> summary s1 = summary s"
    with assms(2) d show ?thesis by auto
  qed
qed

lemma walkabout_other:
  "\<not> is_code_block node \<Longrightarrow>
     walkabout env sw fn (Element node kids) s = walk_children env sw fn kids s"
  by (simp add: dispatch_other)

lemma walk_children_Cons_Return:
  assumes "walk_children env sw fn (n # ns) s = (Return (), s')"
  obtains s1 where "walkabout env sw fn n s = (Return (), s1)"
    and "walk_children env sw fn ns s1 = (Return (), s')"
proof -
  obtain r s1 where w: "walkabout env sw fn n s = (r, s1)" by force
  with assms have "r = Return ()" by (cases r) auto
  with w assms that show ?thesis by simp
qed

lemma walk_summary:
  "flat n \<Longrightarrow> walkabout env sw fn n s = (Return (), s')
     \<Longrightarrow> summary s' = summary s @ recorded env sw (code_blocks n)"
  "flat_list ns \<Longrightarrow> walk_children env sw fn ns s = (Return (), s')
     \<Longrightarrow> summary s' = summary s @ recorded env sw (code_blocks_list ns)"
proof (induction n and ns arbitrary: s s' and s s' rule: code_blocks_code_blocks_list.induct)
  case (1 t)
  then show ?case by simp
next
  case (2 node kids)
  show ?case
  proof (cases "is_code_block node")
    case True
    from 2(2) True have "code_blocks_list kids = []" by simp
    with True walkabout_code_block[OF True 2(3)] show ?thesis by simp
  next
    case False
    from 2(3) have w: "walk_children env sw fn kids s = (Return (), s')"
      unfolding walkabout_other[OF False] .
    from 2(2) have "flat_list kids" by simp
    from 2(1)[OF this w] False show ?thesis by simp
  qed
next
  case 3
  then show ?case by simp
next
  case (4 n ns)
  from 4(4) obtain s1 where w1: "walkabout env sw fn n s = (Return (), s1)"
    and w2: "walk_children env sw fn ns s1 = (Return (), s')"
    by (rule walk_children_Cons_Return)
  from 4(3) have f: "flat n" "flat_list ns" by simp_all
  from 4(1)[OF f(1) w1] 4(2)[OF f(2) w2] show ?case by simp
qed

lemma visit_error_None_dispatch:
  assumes "is_code_block node" "visit_error env sw node = None"
  shows "\<exists>s'. dispatch_visit env sw fn node s = (Raise SkipNode, s')"
proof (cases "registry sw (language node)")
  case None
  with assms show ?thesis
    by (simp add: dispatch_visit_def visit_literal_block_def is_code_block_def Let_def)
next
  case (Some p)
  obtain extension arguments where p: "p = (extension, arguments)" by (cases p)
  from assms(2) Some p obtain name where n: "NamedTemporaryFile env extension (rawsource node) = Inr name"
    by (cases "NamedTemporaryFile env extension (rawsource node)") (auto simp: visit_error_def)
  from assms(2) Some p n obtain rc out err where r: "Popen env (arguments @ [name]) = Inr (rc, out, err)"
    by (cases "Popen env (arguments @ [name])") (auto simp: visit_error_def)
  from assms(2) Some p n r obtain out_text where o: "decode env out = Some out_text"
    by (cases "decode env out") (auto simp: visit_error_def)
  from assms(2) Some p n r o obtain err_text where e: "decode env err = Some err_text"
    by (cases "decode env err") (auto simp: visit_error_def)
  from assms(1) Some p n r o e show ?thesis
    by (cases "rc = 0") (simp_all add: dispatch_visit_def visit_literal_block_def is_code_block_def Let_def)
qed

lemma walk_returns:
  "list_all (\<lambda>b. visit_error env sw b = None) (code_blocks n)
     \<Longrightarrow> \<exists>s'. walkabout env sw fn n s = (Return (), s')"
  "list_all (\<lambda>b. visit_error env sw b = None) (code_blocks_list ns)
     \<Longrightarrow> \<exists>s'. walk_children env sw fn ns s = (Return (), s')"
proof (induction n and ns arbitrary: s and s rule: code_blocks_code_blocks_list.induct)
  case (1 t)
  show ?case by simp
next
  case (2 node kids)
  show ?case
  proof (cases "is_code_block node")
    case True
    with 2(2) have "visit_error env sw node = None" by simp
    from visit_error_None_dispatch[OF True this, of fn s] show ?thesis by auto
  next
    case False
    with 2(2) have "list_all (\<lambda>b. visit_error env sw b = None) (code_blocks_list kids)" by simp
    from 2(1)[OF this, of s] show ?thesis unfolding walkabout_other[OF False] .
  qed
next
  case 3
  show ?case by simp
next
  case (4 n ns)
  from 4(3) have a: "list_all (\<lambda>b. visit_error env sw b = None) (code_blocks n)"
    and b: "list_all (\<lambda>b. visit_error env sw b = None) (code_blocks_list ns)" by simp_all
  from 4(1)[OF a, of s] obtain s1 where w1: "walkabout env sw fn n s = (Return (), s1)" by blast
  from 4(2)[OF b, of s1] obtain s' where "walk_children env sw fn ns s1 = (Return (), s')" by blast
  with w1 show ?case by simp
qed

lemma recorded_as_length:
  "visit_error env sw b = None \<Longrightarrow>
     length (recorded_as sw (spec_outcome env sw b)) =
       (if sw \<or> registry sw (language b) \<noteq> None then 1 else 0)"
  by (auto simp: visit_error_def spec_outcome_def recorded_as_def
      split: option.splits sum.splits prod.splits)

lemma recorded_length:
  "list_all (\<lambda>b. visit_error env sw b = None) bs \<Longrightarrow>
     length (recorded env sw bs) =
       length (filter (\<lambda>b. sw \<or> registry sw (language b) \<noteq> None) bs)"
proof (induction bs)
  case Nil
  show ?case by simp
next
  case (Cons b bs)
  then have "visit_error env sw b = None" by simp
  from recorded_as_length[OF this] Cons show ?case
    by (cases "sw \<or> registry sw (language b) \<noteq> None") simp_all
qed

lemma check_clean:
  assumes "document_of env strict_rst filename = Some document"
    and "flat document" and "completes env sw document"
  shows "\<exists>err'. check env filename strict_rst sw err =
           (Return (PyList (recorded env sw (code_blocks document))), err')"
proof -
  from assms(1) obtain contents where r: "read_file env filename = Inr contents"
    and p: "parse env strict_rst contents filename = Inr document"
    by (auto simp: document_of_def split: sum.splits)
  from assms(3) walk_returns(1)[of env sw document filename "\<lparr>summary = [], stderr = err\<rparr>"]
  obtain s' where w: "walkabout env sw filename document \<lparr>summary = [], stderr = err\<rparr> = (Return (), s')"
    by (auto simp: completes_def)
  from walk_summary(1)[OF assms(2) w] have "summary s' = recorded env sw (code_blocks document)"
    by simp
  with r p w show ?thesis
    by (simp add: check_def publish_string_def translate_def)
qed


section \<open>One visit\<close>

lemma visit_checked:
  assumes "node_has_class b [''code-block'']"
    and "registry sw (language b) = Some (ext, args)"
    and "NamedTemporaryFile env ext (rawsource b) = Inr name"
    and "Popen env (args @ [name]) = Inr (rc, out, err)"
    and "decode env out = Some out_text"
    and "decode env err = Some err_text"
  shows "visit_literal_block env sw fn b s =
           (Raise SkipNode,
            \<lparr>summary = summary s @ [rc = 0],
             stderr = stderr s @ [rawsource b, colored env ''Okay'' GREEN]
                        @ (if rc = 0 then []
                           else [colored env
                                   (failure_message fn b
                                      (strip env (out_text @ newline @ err_text))) RED])\<rparr>)"
  using assms
  by (simp add: visit_literal_block_def Let_def inform_def print_stderr_def)

lemma visit_unknown:
  assumes "node_has_class b [''code-block'']"
    and "registry sw (language b) = None"
  shows "visit_literal_block env sw fn b s =
           (Raise SkipNode,
            \<lparr>summary = summary s @ (if sw then [False] else []),
             stderr = stderr s @ [colored env (''Unknown language: '' @ format_language (language b)) RED]\<rparr>)"
  using assms
  by (simp add: visit_literal_block_def Let_def inform_def print_stderr_def)

lemma visit_launch_error:
  assumes "node_has_class b [''code-block'']"
    and "launch_error env sw b = Some e"
  shows "\<exists>s'. visit_literal_block env sw fn b s = (Raise (OSError e), s') \<and> summary s' = summary s"
proof (cases "registry sw (language b)")
  case None
  with assms(2) show ?thesis by (simp add: launch_error_def)
next
  case (Some p)
  obtain ext args where p: "p = (ext, args)" by (cases p)
  show ?thesis
  proof (cases "NamedTemporaryFile env ext (rawsource b)")
    case (Inl e')
    with assms Some p show ?thesis
      by (simp add: launch_error_def visit_literal_block_def)
  next
    case (Inr name)
    with assms Some p show ?thesis
      by (cases "Popen env (args @ [name])")
         (simp_all add: launch_error_def visit_literal_block_def Let_def)
  qed
qed

lemma visit_decode_error:
  assumes "node_has_class b [''code-block'']"
    and "registry sw (language b) = Some (ext, args)"
    and "NamedTemporaryFile env ext (rawsource b) = Inr name"
    and "Popen env (args @ [name]) = Inr (rc, out, err)"
    and "decode env out = None \<or> decode env err = None"
  shows "\<exists>bytes s'. visit_literal_block env sw fn b s = (Raise (UnicodeDecodeError bytes), s')
           \<and> summary s' = summary s"
  using assms
  by (cases "decode env out") (auto simp: visit_literal_block_def Let_def)


section \<open>Decimal numerals\<close>

lemma digit_is_digit: "d < 10 \<Longrightarrow> is_digit (digit d)"
proof -
  assume "d < 10"
  then have "d \<in> {0, 1, 2, 3, 4, 5, 6, 7, 8, 9}" by auto
  then show ?thesis by (auto simp: is_digit_def digit_def)
qed

lemma digit_value_digit: "d < 10 \<Longrightarrow> digit_value (digit d) = d"
proof -
  assume "d < 10"
  then have "d \<in> {0, 1, 2, 3, 4, 5, 6, 7, 8, 9}" by auto
  then show ?thesis by (auto simp: digit_value_def digit_def)
qed

lemma decimal_value_snoc:
  "decimal_value (t @ [c]) = 10 * decimal_value t + digit_value c"
  by (simp add: decimal_value_def)

lemma digit_zero: "d < 10 \<Longrightarrow> (digit d = CHR ''0'') = (d = 0)"
proof -
  assume "d < 10"
  then have "d \<in> {0, 1, 2, 3, 4, 5, 6, 7, 8, 9}" by auto
  then show ?thesis by (auto simp: digit_def)
qed

lemma str_nat_is_decimal: "is_decimal (str_nat n) n"
proof (induction n rule: str_nat.induct)
  case (1 n)
  show ?case
  proof (cases "n < 10")
    case True
    then have s: "str_nat n = [digit n]" by (simp add: str_nat.simps[of n])
    from True show ?thesis unfolding s
      by (cases "n = 0")
         (simp_all add: is_decimal_def decimal_value_def
           digit_is_digit digit_value_digit digit_zero)
  next
    case False
    with 1 have ih: "is_decimal (str_nat (n div 10)) (n div 10)" by simp
    have m: "n mod 10 < 10" by simp
    from False have "n div 10 \<noteq> 0" by simp
    with ih have "str_nat (n div 10) \<noteq> ''0''"
      by (auto simp: is_decimal_def decimal_value_def digit_value_def)
    with ih have h: "hd (str_nat (n div 10)) \<noteq> CHR ''0''" and ne: "str_nat (n div 10) \<noteq> []"
      by (simp_all add: is_decimal_def)
    from False ih h ne show ?thesis
      by (simp add: str_nat.simps[of n] is_decimal_def decimal_value_snoc
          digit_is_digit[OF m] digit_value_digit[OF m])
  qed
qed

lemma is_decimal_unique: "is_decimal t n \<Longrightarrow> is_decimal t m \<Longrightarrow> n = m"
  by (simp add: is_decimal_def)


section \<open>A whole run\<close>

lemma count_failures_append:
  "count_failures (xs @ ys) = count_failures xs + count_failures ys"
  by (simp add: count_failures_def)

lemma count_failures_recorded_as:
  "count_failures (recorded_as sw out) = (if counts_as_failure sw out then 1 else 0)"
  by (cases out) (simp_all add: count_failures_def recorded_as_def counts_as_failure_def)

lemma count_failures_recorded:
  "count_failures (recorded env sw bs) =
     length (filter (counts_as_failure sw) (map (spec_outcome env sw) bs))"
proof (induction bs)
  case Nil
  show ?case by (simp add: count_failures_def)
next
  case (Cons b bs)
  then show ?case by (simp add: count_failures_append count_failures_recorded_as)
qed

lemma check_files_clean:
  "clean_run env sr sw files \<Longrightarrow>
     \<exists>xs err'. check_files env sr sw files acc err = (Return (acc @ xs), err')
             \<and> count_failures xs = run_failures env sr sw files"
proof (induction files arbitrary: acc err)
  case Nil
  show ?case by (simp add: run_failures_def count_failures_def)
next
  case (Cons f files)
  from Cons.prems obtain d where d: "document_of env sr f = Some d"
    and fl: "flat d" and la: "completes env sw d" and rest: "clean_run env sr sw files"
    by (auto simp: clean_run_def split: option.splits)
  from check_clean[OF d fl la, of err] obtain err1 where
    c: "check env f sr sw err = (Return (PyList (recorded env sw (code_blocks d))), err1)"
    by blast
  from Cons.IH[OF rest, of "acc @ recorded env sw (code_blocks d)" err1]
  obtain xs err' where
    r: "check_files env sr sw files (acc @ recorded env sw (code_blocks d)) err1
          = (Return ((acc @ recorded env sw (code_blocks d)) @ xs), err')"
    and n: "count_failures xs = run_failures env sr sw files"
    by blast
  from c r have "check_files env sr sw (f # files) acc err
                   = (Return (acc @ (recorded env sw (code_blocks d) @ xs)), err')"
    by simp
  moreover from n d have "count_failures (recorded env sw (code_blocks d) @ xs)
                            = run_failures env sr sw (f # files)"
    by (simp add: count_failures_append count_failures_recorded run_failures_def
        document_failures_def)
  ultimately show ?case by blast
qed


section \<open>Two runs\<close>

lemma visit_agree:
  assumes "\<And>extension arguments t.
             checker_verdict e1 extension arguments t = checker_verdict e2 extension arguments t"
    and "summary s1 = summary s2"
  shows "fst (visit_literal_block e1 sw fn b s1) = fst (visit_literal_block e2 sw fn b s2)
       \<and> summary (snd (visit_literal_block e1 sw fn b s1))
           = summary (snd (visit_literal_block e2 sw fn b s2))"
proof (cases "node_has_class b [''code-block'']")
  case False
  with assms(2) show ?thesis by (simp add: visit_literal_block_def)
next
  case c: True
  show ?thesis
  proof (cases "registry sw (language b)")
    case None
    with c assms(2) show ?thesis by (simp add: visit_unknown)
  next
    case (Some p)
    obtain ext args where p: "p = (ext, args)" by (cases p)
    from assms(1)[of ext args "rawsource b"] Some p c assms(2) show ?thesis
      by (auto simp: checker_verdict_def visit_literal_block_def Let_def
          split: sum.splits prod.splits option.splits)
  qed
qed

lemma dispatch_agree:
  assumes "\<And>extension arguments t.
             checker_verdict e1 extension arguments t = checker_verdict e2 extension arguments t"
    and "summary s1 = summary s2"
  shows "fst (dispatch_visit e1 sw fn b s1) = fst (dispatch_visit e2 sw fn b s2)
       \<and> summary (snd (dispatch_visit e1 sw fn b s1))
           = summary (snd (dispatch_visit e2 sw fn b s2))"
  using visit_agree[OF assms, of sw fn b] assms(2)
  by (simp add: dispatch_visit_def)

lemma walk_agree:
  assumes "\<And>extension arguments t.
             checker_verdict e1 extension arguments t = checker_verdict e2 extension arguments t"
  shows "summary s1 = summary s2 \<Longrightarrow>
           fst (walkabout e1 sw fn n s1) = fst (walkabout e2 sw fn n s2)
         \<and> summary (snd (walkabout e1 sw fn n s1)) = summary (snd (walkabout e2 sw fn n s2))"
    and "summary s1 = summary s2 \<Longrightarrow>
           fst (walk_children e1 sw fn ns s1) = fst (walk_children e2 sw fn ns s2)
         \<and> summary (snd (walk_children e1 sw fn ns s1))
             = summary (snd (walk_children e2 sw fn ns s2))"
proof (induction n and ns arbitrary: s1 s2 and s1 s2 rule: code_blocks_code_blocks_list.induct)
  case (1 t)
  then show ?case by simp
next
  case (2 node kids)
  obtain r1 t1 where d1: "dispatch_visit e1 sw fn node s1 = (r1, t1)" by force
  obtain r2 t2 where d2: "dispatch_visit e2 sw fn node s2 = (r2, t2)" by force
  from dispatch_agree[OF assms 2(2), of sw fn node] d1 d2
  have r: "r1 = r2" and t: "summary t1 = summary t2" by simp_all
  from d2 r have d2': "dispatch_visit e2 sw fn node s2 = (r1, t2)" by simp
  show ?case
  proof (cases r1)
    case (Return u)
    with d1 d2' 2(1)[OF t] show ?thesis by simp
  next
    case (Raise e)
    with d1 d2' t show ?thesis by simp
  qed
next
  case 3
  then show ?case by simp
next
  case (4 n ns)
  obtain r1 t1 where w1: "walkabout e1 sw fn n s1 = (r1, t1)" by force
  obtain r2 t2 where w2: "walkabout e2 sw fn n s2 = (r2, t2)" by force
  from 4(1)[OF 4(3)] w1 w2 have r: "r1 = r2" and t: "summary t1 = summary t2" by simp_all
  from w2 r have w2': "walkabout e2 sw fn n s2 = (r1, t2)" by simp
  show ?case
  proof (cases r1)
    case (Return u)
    with w1 w2' 4(2)[OF t] show ?thesis by simp
  next
    case (Raise e)
    with w1 w2' t show ?thesis by simp
  qed
qed

lemma check_agree:
  assumes "\<And>extension arguments t.
             checker_verdict e1 extension arguments t = checker_verdict e2 extension arguments t"
    and "read_file e1 = read_file e2"
    and "parse e1 = parse e2"
  shows "fst (check e1 f sr sw err1) = fst (check e2 f sr sw err2)"
proof (cases "read_file e2 f")
  case (Inl e)
  with assms(2) show ?thesis by (simp add: check_def)
next
  case (Inr contents)
  show ?thesis
  proof (cases "parse e2 sr contents f")
    case (Inl msg)
    with Inr assms(2,3) show ?thesis
      by (simp add: check_def publish_string_def is_SystemMessage_def)
  next
    case d: (Inr document)
    obtain r1 t1 where w1: "walkabout e1 sw f document \<lparr>summary = [], stderr = err1\<rparr> = (r1, t1)"
      by force
    obtain r2 t2 where w2: "walkabout e2 sw f document \<lparr>summary = [], stderr = err2\<rparr> = (r2, t2)"
      by force
    from walk_agree(1)[OF assms(1), of "\<lparr>summary = [], stderr = err1\<rparr>"
        "\<lparr>summary = [], stderr = err2\<rparr>" sw f document] w1 w2
    have r: "r1 = r2" and t: "summary t1 = summary t2" by simp_all
    from w2 r have w2': "walkabout e2 sw f document \<lparr>summary = [], stderr = err2\<rparr> = (r1, t2)"
      by simp
    show ?thesis
    proof (cases r1)
      case (Return u)
      with Inr d assms(2,3) w1 w2' t show ?thesis
        by (simp add: check_def publish_string_def translate_def)
    next
      case (Raise e)
      with Inr d assms(2,3) w1 w2' show ?thesis
        by (simp add: check_def publish_string_def translate_def)
    qed
  qed
qed

lemma check_files_agree:
  assumes "\<And>extension arguments t.
             checker_verdict e1 extension arguments t = checker_verdict e2 extension arguments t"
    and "read_file e1 = read_file e2"
    and "parse e1 = parse e2"
  shows "fst (check_files e1 sr sw files acc err1) = fst (check_files e2 sr sw files acc err2)"
proof (induction files arbitrary: acc err1 err2)
  case Nil
  show ?case by simp
next
  case (Cons f files)
  obtain r1 t1 where c1: "check e1 f sr sw err1 = (r1, t1)" by force
  obtain r2 t2 where c2: "check e2 f sr sw err2 = (r2, t2)" by force
  from check_agree[OF assms, of f sr sw err1 err2] c1 c2 have r: "r1 = r2" by simp
  with c2 have c2': "check e2 f sr sw err2 = (r1, t2)" by simp
  show ?case
  proof (cases r1)
    case (Raise e)
    with c1 c2' show ?thesis by simp
  next
    case (Return v)
    with c1 c2' Cons.IH show ?thesis by (cases v) simp_all
  qed
qed


section \<open>The registry\<close>

lemma registry_Some_iff:
  "(registry sw lang \<noteq> None) =
     (lang \<in> {Some ''bash'', Some ''c'', Some ''cpp'', Some ''python''})"
  by (cases lang) (auto simp: registry_def checkers_def)


section \<open>The claims\<close>

text \<open>
  C1, as the code has it.  For a document that is read and parsed, in which no code block
  lies inside another and every checker is launched and its output decoded, \<open>check\<close>
  returns the summary; it
  holds, in document order, one entry for each code block whose language is in the
  registry, and one for each code block with another language under strict warnings
  only.  Under strict warnings its length is the number of code blocks.
\<close>

theorem outcomes_per_document:
  assumes "document_of env strict_rst filename = Some document"
    and "flat document"
    and "completes env strict_warnings document"
  shows "\<exists>xs err'. check env filename strict_rst strict_warnings err = (Return (PyList xs), err')
           \<and> xs = recorded env strict_warnings (code_blocks document)
           \<and> length xs = length (filter (\<lambda>b. strict_warnings
                                            \<or> registry strict_warnings (language b) \<noteq> None)
                                   (code_blocks document))
           \<and> (strict_warnings \<longrightarrow> length xs = length (code_blocks document))"
proof -
  from check_clean[OF assms] obtain err' where
    c: "check env filename strict_rst strict_warnings err =
          (Return (PyList (recorded env strict_warnings (code_blocks document))), err')"
    by blast
  from assms(3) have
    l: "length (recorded env strict_warnings (code_blocks document)) =
          length (filter (\<lambda>b. strict_warnings \<or> registry strict_warnings (language b) \<noteq> None)
                   (code_blocks document))"
    unfolding completes_def by (rule recorded_length)
  have "strict_warnings \<longrightarrow>
      length (recorded env strict_warnings (code_blocks document)) = length (code_blocks document)"
  proof
    assume "strict_warnings"
    with l show "length (recorded env strict_warnings (code_blocks document))
                   = length (code_blocks document)"
      by simp
  qed
  with c l show ?thesis by blast
qed

theorem outcomes_per_document_witness:
  "document_of sample_os False ''doc.rst'' = Some sample_document
   \<and> flat sample_document
   \<and> completes sample_os False sample_document
   \<and> (\<exists>xs err'. check sample_os ''doc.rst'' False False [] = (Return (PyList xs), err')
         \<and> xs = recorded sample_os False (code_blocks sample_document)
         \<and> length xs = length (filter (\<lambda>b. False \<or> registry False (language b) \<noteq> None)
                                 (code_blocks sample_document))
         \<and> (False \<longrightarrow> length xs = length (code_blocks sample_document)))"
proof -
  have h1: "document_of sample_os False ''doc.rst'' = Some sample_document" by code_simp
  have h2: "flat sample_document" by code_simp
  have h3: "completes sample_os False sample_document" by code_simp
  from outcomes_per_document[OF h1 h2 h3, of "[]"] h1 h2 h3 show ?thesis by blast
qed

text \<open>
  C1 as stated fails: without strict warnings the sample document has three code blocks
  and two recorded outcomes, since the block tagged \<open>ruby\<close> records none; and where
  \<open>gcc\<close> cannot be launched, or passes with output that is no UTF-8, the check ends
  with the error and records nothing.
\<close>

theorem outcomes_per_document_counterexample:
  "document_of sample_os False ''doc.rst'' = Some sample_document
   \<and> length (code_blocks sample_document) = 3
   \<and> fst (check sample_os ''doc.rst'' False False []) = Return (PyList [True, False])
   \<and> fst (check no_gcc_os ''doc.rst'' False True []) = Raise (OSError ''No such file or directory'')
   \<and> fst (check latin1_os ''doc.rst'' False True []) = Raise (UnicodeDecodeError [CHR 0xFF])"
proof -
  have "document_of sample_os False ''doc.rst'' = Some sample_document" by code_simp
  moreover have "length (code_blocks sample_document) = 3" by code_simp
  moreover have "fst (check sample_os ''doc.rst'' False False []) = Return (PyList [True, False])"
    by code_simp
  moreover have "fst (check no_gcc_os ''doc.rst'' False True [])
                   = Raise (OSError ''No such file or directory'')"
    by code_simp
  moreover have "fst (check latin1_os ''doc.rst'' False True [])
                   = Raise (UnicodeDecodeError [CHR 0xFF])"
    by code_simp
  ultimately show ?thesis by simp
qed

text \<open>
  C2.  When the parser rejects a file, \<open>check\<close> catches the \<open>SystemMessage\<close> and returns
  \<open>False\<close>, recording nothing and printing nothing; \<open>summary += False\<close> in the loop of
  \<open>main\<close> then raises \<open>TypeError\<close>, whatever was collected before.  The run ends there:
  the files after it are not checked, no summary line is printed, and the interpreter
  exits with status 1.
\<close>

theorem parse_failure_ends_run:
  assumes "read_file env filename = Inr contents"
    and "parse env strict_rst contents filename = Inl msg"
  shows "check env filename strict_rst strict_warnings err = (Return (PyBool False), err)
       \<and> check_files env strict_rst strict_warnings (filename # files) collected err
           = (Raise (TypeError not_iterable), err)
       \<and> main env (filename # files) strict_rst strict_warnings err
           = (Raise (TypeError not_iterable), err)
       \<and> exit_status (fst (main env (filename # files) strict_rst strict_warnings err)) = 1"
proof -
  from assms have c: "check env filename strict_rst strict_warnings err = (Return (PyBool False), err)"
    by (simp add: check_def publish_string_def is_SystemMessage_def)
  then have f: "\<And>acc. check_files env strict_rst strict_warnings (filename # files) acc err
                        = (Raise (TypeError not_iterable), err)"
    by simp
  then have m: "main env (filename # files) strict_rst strict_warnings err
                  = (Raise (TypeError not_iterable), err)"
    by (simp add: main_def)
  then have "exit_status (fst (main env (filename # files) strict_rst strict_warnings err)) = 1"
    by (simp add: exit_status_def)
  with c f m show ?thesis by (intro conjI)
qed

theorem parse_failure_ends_run_witness:
  "read_file sample_os ''bad.rst'' = Inr ''bad text''
   \<and> parse sample_os True ''bad text'' ''bad.rst'' = Inl ''Unexpected indentation.''
   \<and> check sample_os ''bad.rst'' True False [] = (Return (PyBool False), [])
   \<and> check_files sample_os True False (''bad.rst'' # [''doc.rst'']) [] []
       = (Raise (TypeError not_iterable), [])
   \<and> main sample_os (''bad.rst'' # [''doc.rst'']) True False []
       = (Raise (TypeError not_iterable), [])
   \<and> exit_status (fst (main sample_os (''bad.rst'' # [''doc.rst'']) True False [])) = 1
   \<and> snd (main sample_os [''doc.rst''] True False []) =
       [''int x;'', ''Okay'', ''int y'', ''Okay'', ''doc.rst:8: error: expected initializer'',
        ''Unknown language: ruby'', ''1 failure(s)'']"
proof -
  have h1: "read_file sample_os ''bad.rst'' = Inr ''bad text''" by code_simp
  have h2: "parse sample_os True ''bad text'' ''bad.rst'' = Inl ''Unexpected indentation.''"
    by code_simp
  have g: "snd (main sample_os [''doc.rst''] True False []) =
       [''int x;'', ''Okay'', ''int y'', ''Okay'', ''doc.rst:8: error: expected initializer'',
        ''Unknown language: ruby'', ''1 failure(s)'']" by code_simp
  note r = parse_failure_ends_run[OF h1 h2, of False "[]" "[''doc.rst'']" "[]"]
  from h1 h2 r[THEN conjunct1] r[THEN conjunct2, THEN conjunct1]
    r[THEN conjunct2, THEN conjunct2, THEN conjunct1]
    r[THEN conjunct2, THEN conjunct2, THEN conjunct2] g
  show ?thesis by (intro conjI)
qed

text \<open>
  C3, as the code has it.  For a code block whose language is in the registry, when the
  temporary file cannot be made or the checker cannot be launched, the error leaves the
  visit and the walk: the summary gets no entry for the block (where the specification
  has the outcome \<open>Failed\<close> with the error as diagnostic), and the walk over the block
  and the nodes after it ends at the block, with the same state whatever nodes follow.
\<close>

theorem launch_error_unwinds:
  assumes "is_code_block b"
    and "launch_error env strict_warnings b = Some e"
  shows "\<exists>s'. visit_literal_block env strict_warnings filename b s = (Raise (OSError e), s')
            \<and> walkabout env strict_warnings filename (Element b kids) s = (Raise (OSError e), s')
            \<and> walk_children env strict_warnings filename (Element b kids # siblings) s
                 = (Raise (OSError e), s')
            \<and> summary s' = summary s
            \<and> spec_outcome env strict_warnings b = Failed e (line b)"
proof -
  from assms(1) have c: "node_has_class b [''code-block'']" and t: "tagname b = ''literal_block''"
    by (simp_all add: is_code_block_def)
  from visit_launch_error[OF c assms(2), of filename s] obtain s' where
    v: "visit_literal_block env strict_warnings filename b s = (Raise (OSError e), s')"
    and s: "summary s' = summary s"
    by blast
  from v t have w: "walkabout env strict_warnings filename (Element b kids) s = (Raise (OSError e), s')"
    by (simp add: dispatch_visit_def)
  then have c: "walk_children env strict_warnings filename (Element b kids # siblings) s
                  = (Raise (OSError e), s')"
    by simp
  from assms(2) have "spec_outcome env strict_warnings b = Failed e (line b)"
    by (auto simp: launch_error_def spec_outcome_def split: option.splits sum.splits)
  with v w c s show ?thesis by blast
qed

theorem launch_error_unwinds_witness:
  "is_code_block c_block
   \<and> launch_error no_gcc_os True c_block = Some ''No such file or directory''
   \<and> (\<exists>s'. visit_literal_block no_gcc_os True ''doc.rst'' c_block \<lparr>summary = [], stderr = []\<rparr>
              = (Raise (OSError ''No such file or directory''), s')
          \<and> walkabout no_gcc_os True ''doc.rst'' (Element c_block [Text ''int x;''])
               \<lparr>summary = [], stderr = []\<rparr>
              = (Raise (OSError ''No such file or directory''), s')
          \<and> walk_children no_gcc_os True ''doc.rst''
               (Element c_block [Text ''int x;''] # [Element ruby_block [Text ''puts 1'']])
               \<lparr>summary = [], stderr = []\<rparr>
              = (Raise (OSError ''No such file or directory''), s')
          \<and> summary s' = summary \<lparr>summary = [], stderr = []\<rparr>
          \<and> spec_outcome no_gcc_os True c_block
               = Failed ''No such file or directory'' (line c_block))"
proof -
  have h1: "is_code_block c_block" by code_simp
  have h2: "launch_error no_gcc_os True c_block = Some ''No such file or directory''" by code_simp
  from h1 h2 launch_error_unwinds[OF h1 h2, where filename = "''doc.rst''"
      and kids = "[Text ''int x;'']" and siblings = "[Element ruby_block [Text ''puts 1'']]"
      and s = "\<lparr>summary = [], stderr = []\<rparr>"]
  show ?thesis by (intro conjI)
qed

text \<open>
  C3 as stated fails where \<open>gcc\<close> cannot be launched: under strict warnings the check of
  the sample document ends with the launch error after the first block's raw source,
  no outcome is recorded for that block, and the blocks after it are not visited; the
  run ends with the same error, without a summary line.
\<close>

theorem launch_error_unwinds_counterexample:
  "check no_gcc_os ''doc.rst'' False True [] =
     (Raise (OSError ''No such file or directory''), [''int x;'', ''Okay''])
   \<and> main no_gcc_os [''doc.rst''] False True [] =
     (Raise (OSError ''No such file or directory''), [''int x;'', ''Okay''])
   \<and> walkabout no_gcc_os True ''doc.rst'' sample_document \<lparr>summary = [], stderr = []\<rparr> =
     (Raise (OSError ''No such file or directory''),
      \<lparr>summary = [], stderr = [''int x;'', ''Okay'']\<rparr>)"
proof -
  have "check no_gcc_os ''doc.rst'' False True [] =
     (Raise (OSError ''No such file or directory''), [''int x;'', ''Okay''])" by code_simp
  moreover have "main no_gcc_os [''doc.rst''] False True [] =
     (Raise (OSError ''No such file or directory''), [''int x;'', ''Okay''])" by code_simp
  moreover have "walkabout no_gcc_os True ''doc.rst'' sample_document \<lparr>summary = [], stderr = []\<rparr> =
     (Raise (OSError ''No such file or directory''),
      \<lparr>summary = [], stderr = [''int x;'', ''Okay'']\<rparr>)" by code_simp
  ultimately show ?thesis by simp
qed

text \<open>
  C4, as the code has it.  For a code block whose language is in the registry, whose
  checker is launched and whose two streams are decoded, standard error gets the block's
  raw source first, one line that is printed before the checker runs, and then, exactly
  when the return code is not zero, the red failure message: the file name, a colon, the
  numeral of the node's line (\<open>None\<close> for a node without line), a colon and a blank, and
  the two decoded streams joined by a newline and stripped.  A code block whose language
  is not in the registry gets one red line \<open>Unknown language: <tag>\<close> (\<open>None\<close> for a
  node without language) and nothing else, under either setting of strict warnings.
\<close>

theorem block_report:
  assumes "is_code_block b"
  shows "(\<forall>extension arguments name returncode out err out_text err_text.
            registry strict_warnings (language b) = Some (extension, arguments)
            \<and> NamedTemporaryFile env extension (rawsource b) = Inr name
            \<and> Popen env (arguments @ [name]) = Inr (returncode, out, err)
            \<and> decode env out = Some out_text
            \<and> decode env err = Some err_text
            \<longrightarrow> (\<exists>marker number.
                   stderr (snd (visit_literal_block env strict_warnings filename b s)) =
                     stderr s @ [rawsource b, marker]
                       @ (if returncode = 0 then []
                          else [colored env (filename @ '':'' @ number @ '': ''
                                              @ strip env (out_text @ newline @ err_text)) RED])
                 \<and> (case line b of None \<Rightarrow> number = ''None''
                                   | Some n \<Rightarrow> is_decimal number n)))
       \<and> (registry strict_warnings (language b) = None
            \<longrightarrow> stderr (snd (visit_literal_block env strict_warnings filename b s)) =
                  stderr s @ [colored env (''Unknown language: ''
                                @ (case language b of None \<Rightarrow> ''None'' | Some t \<Rightarrow> t)) RED])"
proof (intro conjI allI impI)
  from assms have c: "node_has_class b [''code-block'']" by (simp add: is_code_block_def)
  have n: "case line b of None \<Rightarrow> format_line (line b) = ''None''
                        | Some n \<Rightarrow> is_decimal (format_line (line b)) n"
    by (cases "line b") (simp_all add: format_line_def str_nat_is_decimal)
  {
    fix extension arguments name returncode out err out_text err_text
    assume a: "registry strict_warnings (language b) = Some (extension, arguments)
            \<and> NamedTemporaryFile env extension (rawsource b) = Inr name
            \<and> Popen env (arguments @ [name]) = Inr (returncode, out, err)
            \<and> decode env out = Some out_text
            \<and> decode env err = Some err_text"
    then have "stderr (snd (visit_literal_block env strict_warnings filename b s)) =
                 stderr s @ [rawsource b, colored env ''Okay'' GREEN]
                   @ (if returncode = 0 then []
                      else [colored env (filename @ '':'' @ format_line (line b) @ '': ''
                                          @ strip env (out_text @ newline @ err_text)) RED])"
      using visit_checked[OF c, of strict_warnings extension arguments env name returncode out err
          out_text err_text filename s]
      by (simp add: failure_message_def)
    with n show "\<exists>marker number.
                   stderr (snd (visit_literal_block env strict_warnings filename b s)) =
                     stderr s @ [rawsource b, marker]
                       @ (if returncode = 0 then []
                          else [colored env (filename @ '':'' @ number @ '': ''
                                              @ strip env (out_text @ newline @ err_text)) RED])
                 \<and> (case line b of None \<Rightarrow> number = ''None''
                                   | Some n \<Rightarrow> is_decimal number n)"
      by blast
  }
  {
    assume "registry strict_warnings (language b) = None"
    from visit_unknown[OF c this, of env filename s]
    show "stderr (snd (visit_literal_block env strict_warnings filename b s)) =
            stderr s @ [colored env (''Unknown language: ''
                          @ (case language b of None \<Rightarrow> ''None'' | Some t \<Rightarrow> t)) RED]"
      by (simp add: format_language_def)
  }
qed

theorem block_report_witness:
  "is_code_block ruby_block
   \<and> registry True (language ruby_block) = None
   \<and> stderr (snd (visit_literal_block sample_os True ''doc.rst'' ruby_block
                     \<lparr>summary = [], stderr = []\<rparr>))
       = [''Unknown language: ruby'']
   \<and> is_code_block cpp_block
   \<and> registry True (language cpp_block) =
        Some (''.cpp'', [''g++'', ''-std=c++0x'', ''-pedantic'', ''-fsyntax-only'',
                        ''-O3'', ''-Wall'', ''-Wextra'', ''-Werror''])
   \<and> NamedTemporaryFile sample_os ''.cpp'' (rawsource cpp_block) = Inr ''/tmp/tmpa1.cpp''
   \<and> Popen sample_os ([''g++'', ''-std=c++0x'', ''-pedantic'', ''-fsyntax-only'',
                         ''-O3'', ''-Wall'', ''-Wextra'', ''-Werror''] @ [''/tmp/tmpa1.cpp''])
        = Inr (1, [], ''error: expected initializer'')
   \<and> decode sample_os [] = Some []
   \<and> decode sample_os ''error: expected initializer'' = Some ''error: expected initializer''
   \<and> (\<exists>marker number.
         stderr (snd (visit_literal_block sample_os True ''doc.rst'' cpp_block
                        \<lparr>summary = [], stderr = []\<rparr>))
           = [''int y'', marker, ''doc.rst:'' @ number @ '': error: expected initializer'']
       \<and> is_decimal number 8)"
proof -
  have r1: "is_code_block ruby_block" by code_simp
  have r2: "registry True (language ruby_block) = None" by code_simp
  have r3: "colored sample_os (''Unknown language: ''
              @ (case language ruby_block of None \<Rightarrow> ''None'' | Some t \<Rightarrow> t)) RED
              = ''Unknown language: ruby''" by code_simp
  have h1: "is_code_block cpp_block" by code_simp
  have h2: "registry True (language cpp_block) =
        Some (''.cpp'', [''g++'', ''-std=c++0x'', ''-pedantic'', ''-fsyntax-only'',
                        ''-O3'', ''-Wall'', ''-Wextra'', ''-Werror''])" by code_simp
  have h3: "NamedTemporaryFile sample_os ''.cpp'' (rawsource cpp_block) = Inr ''/tmp/tmpa1.cpp''"
    by (simp add: sample_os_def)
  have h4: "Popen sample_os ([''g++'', ''-std=c++0x'', ''-pedantic'', ''-fsyntax-only'',
                         ''-O3'', ''-Wall'', ''-Wextra'', ''-Werror''] @ [''/tmp/tmpa1.cpp''])
        = Inr (1, [], ''error: expected initializer'')"
    by (simp add: sample_os_def sample_popen_def)
  have h5: "decode sample_os [] = Some []" by code_simp
  have h6: "decode sample_os ''error: expected initializer'' = Some ''error: expected initializer''"
    by code_simp
  have e1: "strip sample_os ([] @ newline @ ''error: expected initializer'')
              = ''error: expected initializer''" by code_simp
  have e2: "rawsource cpp_block = ''int y''" "line cpp_block = Some 8" "isatty sample_os = False"
    by code_simp+
  from block_report[OF r1, of True sample_os "''doc.rst''" "\<lparr>summary = [], stderr = []\<rparr>"] r2 r3
  have a: "stderr (snd (visit_literal_block sample_os True ''doc.rst'' ruby_block
                     \<lparr>summary = [], stderr = []\<rparr>)) = [''Unknown language: ruby'']"
    by simp
  from block_report[OF h1, of True sample_os "''doc.rst''" "\<lparr>summary = [], stderr = []\<rparr>"]
    h2 h3 h4 h5 h6
  have "\<exists>marker number.
          stderr (snd (visit_literal_block sample_os True ''doc.rst'' cpp_block
                         \<lparr>summary = [], stderr = []\<rparr>))
           = stderr \<lparr>summary = [], stderr = []\<rparr> @ [rawsource cpp_block, marker]
               @ (if (1::int) = 0 then []
                  else [colored sample_os (''doc.rst'' @ '':'' @ number @ '': ''
                          @ strip sample_os ([] @ newline @ ''error: expected initializer'')) RED])
        \<and> (case line cpp_block of None \<Rightarrow> number = ''None''
                                 | Some n \<Rightarrow> is_decimal number n)"
    by blast
  then have b: "\<exists>marker number.
         stderr (snd (visit_literal_block sample_os True ''doc.rst'' cpp_block
                        \<lparr>summary = [], stderr = []\<rparr>))
           = [''int y'', marker, ''doc.rst:'' @ number @ '': error: expected initializer'']
       \<and> is_decimal number 8"
    unfolding e1 e2 by (simp add: colored_def e2)
  from r1 r2 a h1 h2 h3 h4 h5 h6 b show ?thesis by (intro conjI)
qed

text \<open>
  C4 as stated fails on the sample document under strict warnings: the block tagged
  \<open>ruby\<close> counts as a failure, and standard error gets neither its raw source nor a line
  of the form \<open><file>:<line>: <diagnostic>\<close> for it; and \<open>Okay\<close> is printed for the C++
  block, whose check fails.
\<close>

theorem block_report_counterexample:
  "check sample_os ''doc.rst'' False True [] =
     (Return (PyList [True, False, False]),
      [''int x;'', ''Okay'',
       ''int y'', ''Okay'', ''doc.rst:8: error: expected initializer'',
       ''Unknown language: ruby''])"
  by code_simp

text \<open>
  C5, as the code has it.  For a run that meets no error (every file is read and parsed,
  every checker is launched and its output decoded), \<open>main\<close> returns: its last line on
  standard error is \<open><N> failure(s)\<close> with the numeral of \<open>N\<close>, red when \<open>N\<close> is not zero
  and green otherwise, and it returns 0 when
  \<open>N\<close> is zero and 1 otherwise, where \<open>N\<close> counts over all files the blocks whose outcome
  is \<open>Failed\<close> and, under strict warnings only, those whose outcome is
  \<open>UnknownLanguage\<close>.  The exit status of the process is that number.
\<close>

theorem exit_status_counts_failures:
  assumes "clean_run env strict_rst strict_warnings files"
  shows "\<exists>err' number. main env files strict_rst strict_warnings err =
           (Return (if run_failures env strict_rst strict_warnings files = 0 then 0 else 1),
            err' @ [colored env (number @ '' failure(s)'')
                      (if run_failures env strict_rst strict_warnings files = 0 then GREEN else RED)])
         \<and> is_decimal number (run_failures env strict_rst strict_warnings files)
         \<and> (exit_status (fst (main env files strict_rst strict_warnings err)) = 0) =
             (run_failures env strict_rst strict_warnings files = 0)
         \<and> exit_status (fst (main env files strict_rst strict_warnings err)) \<in> {0, 1}"
proof -
  let ?n = "run_failures env strict_rst strict_warnings files"
  from check_files_clean[OF assms, of "[]" err] obtain xs err' where
    c: "check_files env strict_rst strict_warnings files [] err = (Return xs, err')"
    and n: "count_failures xs = ?n"
    by auto
  from c n have m: "main env files strict_rst strict_warnings err =
           (Return (if ?n = 0 then 0 else 1),
            err' @ [colored env (str_nat ?n @ '' failure(s)'') (if ?n = 0 then GREEN else RED)])"
    by (simp add: main_def Let_def inform_def print_stderr_def)
  then have e: "(exit_status (fst (main env files strict_rst strict_warnings err)) = 0) = (?n = 0)"
    "exit_status (fst (main env files strict_rst strict_warnings err)) \<in> {0, 1}"
    by (simp_all add: exit_status_def)
  have d: "is_decimal (str_nat ?n) ?n" by (rule str_nat_is_decimal)
  from m d e show ?thesis
    by - (rule exI[of _ err'], rule exI[of _ "str_nat ?n"], intro conjI, assumption+)
qed

theorem exit_status_counts_failures_witness:
  "clean_run sample_os False True [''doc.rst'']
   \<and> run_failures sample_os False True [''doc.rst''] = 2
   \<and> run_failures sample_os False False [''doc.rst''] = 1
   \<and> (\<exists>err' number. main sample_os [''doc.rst''] False True [] =
           (Return (if run_failures sample_os False True [''doc.rst''] = 0 then 0 else 1),
            err' @ [colored sample_os (number @ '' failure(s)'')
                      (if run_failures sample_os False True [''doc.rst''] = 0 then GREEN else RED)])
         \<and> is_decimal number (run_failures sample_os False True [''doc.rst''])
         \<and> (exit_status (fst (main sample_os [''doc.rst''] False True [])) = 0) =
             (run_failures sample_os False True [''doc.rst''] = 0)
         \<and> exit_status (fst (main sample_os [''doc.rst''] False True [])) \<in> {0, 1})"
proof -
  have h: "clean_run sample_os False True [''doc.rst'']" by code_simp
  have n: "run_failures sample_os False True [''doc.rst''] = 2" by code_simp
  have n': "run_failures sample_os False False [''doc.rst''] = 1" by code_simp
  from h n n' exit_status_counts_failures[OF h, of "[]"]
  show ?thesis by (intro conjI)
qed

text \<open>
  C5 as stated fails for a run that ends with an error: where \<open>gcc\<close> cannot be launched,
  or passes with output that is no UTF-8, the run of the sample document prints no
  summary line and the process ends with status 1, although no failure was recorded.
\<close>

theorem exit_status_counts_failures_counterexample:
  "main no_gcc_os [''doc.rst''] False False [] =
     (Raise (OSError ''No such file or directory''), [''int x;'', ''Okay''])
   \<and> exit_status (fst (main no_gcc_os [''doc.rst''] False False [])) = 1
   \<and> fst (check_files no_gcc_os False False [''doc.rst''] [] []) =
       Raise (OSError ''No such file or directory'')
   \<and> main latin1_os [''doc.rst''] False False [] =
     (Raise (UnicodeDecodeError [CHR 0xFF]), [''int x;'', ''Okay''])
   \<and> exit_status (fst (main latin1_os [''doc.rst''] False False [])) = 1"
proof -
  have "main no_gcc_os [''doc.rst''] False False [] =
     (Raise (OSError ''No such file or directory''), [''int x;'', ''Okay''])" by code_simp
  moreover have "exit_status (fst (main no_gcc_os [''doc.rst''] False False [])) = 1" by code_simp
  moreover have "fst (check_files no_gcc_os False False [''doc.rst''] [] []) =
       Raise (OSError ''No such file or directory'')" by code_simp
  moreover have "main latin1_os [''doc.rst''] False False [] =
     (Raise (UnicodeDecodeError [CHR 0xFF]), [''int x;'', ''Okay''])" by code_simp
  moreover have "exit_status (fst (main latin1_os [''doc.rst''] False False [])) = 1" by code_simp
  ultimately show ?thesis by simp
qed




text \<open>
  C7.  The registry lookup succeeds exactly for the tags \<open>bash\<close>, \<open>c\<close>, \<open>cpp\<close> and
  \<open>python\<close>, so it finds nothing for the empty tag, for any other tag and for an absent
  language; strict warnings append \<open>-Werror\<close> to the command templates of C and C++ and
  leave those of bash and python as they are.
\<close>

theorem registry_lookup:
  "(registry sw lang \<noteq> None) =
     (lang \<in> {Some ''bash'', Some ''c'', Some ''cpp'', Some ''python''})
   \<and> registry sw (Some []) = None
   \<and> registry False (Some ''c'') =
        Some (''.c'', [''gcc'', ''-fsyntax-only'', ''-O3'', ''-std=c99'',
                      ''-pedantic'', ''-Wall'', ''-Wextra''])
   \<and> registry True (Some ''c'') =
        Some (''.c'', [''gcc'', ''-fsyntax-only'', ''-O3'', ''-std=c99'',
                      ''-pedantic'', ''-Wall'', ''-Wextra''] @ [''-Werror''])
   \<and> registry False (Some ''cpp'') =
        Some (''.cpp'', [''g++'', ''-std=c++0x'', ''-pedantic'', ''-fsyntax-only'',
                        ''-O3'', ''-Wall'', ''-Wextra''])
   \<and> registry True (Some ''cpp'') =
        Some (''.cpp'', [''g++'', ''-std=c++0x'', ''-pedantic'', ''-fsyntax-only'',
                        ''-O3'', ''-Wall'', ''-Wextra''] @ [''-Werror''])
   \<and> registry sw (Some ''bash'') = Some (''.bash'', [''bash'', ''-n''])
   \<and> registry sw (Some ''python'') = Some (''.py'', [''python'', ''-m'', ''compileall'', ''-q''])"
proof -
  have "(registry sw lang \<noteq> None) =
     (lang \<in> {Some ''bash'', Some ''c'', Some ''cpp'', Some ''python''})"
    by (rule registry_Some_iff)
  moreover have "registry sw (Some []) = None"
    by (simp add: registry_def checkers_def)
  ultimately show ?thesis
    by (simp add: registry_def checkers_def error_flag_def)
qed

text \<open>
  C8.  A code-block directive without a language argument gives one literal block with
  the class \<open>code-block\<close> and the empty text as language (its only child is the code as
  text, and it has none when there is no code).  The registry has no entry for
  it under either setting; the visit reports \<open>Unknown language: \<close> in red, prints nothing
  else, and appends \<open>False\<close> to the summary exactly under strict warnings, so the count
  of failures grows by one then and stays otherwise; the walk over the block returns.
  The outcome of the specification is \<open>UnknownLanguage\<close> of the empty tag.
\<close>

theorem directive_without_language:
  "\<exists>b kids s'. CodeBlockDirective_run [] content = [Element b kids]
       \<and> kids = (if join newline content = [] then [] else [Text (join newline content)])
       \<and> is_code_block b
       \<and> language b = Some []
       \<and> rawsource b = join newline content
       \<and> registry strict_warnings (language b) = None
       \<and> spec_outcome env strict_warnings b = UnknownLanguage (Some [])
       \<and> visit_literal_block env strict_warnings filename b s = (Raise SkipNode, s')
       \<and> walkabout env strict_warnings filename (Element b kids) s = (Return (), s')
       \<and> stderr s' = stderr s @ [colored env ''Unknown language: '' RED]
       \<and> summary s' = summary s @ (if strict_warnings then [False] else [])
       \<and> count_failures (summary s') =
            count_failures (summary s) + (if strict_warnings then 1 else 0)"
proof -
  let ?b = "\<lparr>tagname = ''literal_block'', classes = [''code-block''],
              language = Some [], rawsource = join newline content, line = None\<rparr>"
  let ?s' = "\<lparr>summary = summary s @ (if strict_warnings then [False] else []),
              stderr = stderr s @ [colored env (''Unknown language: '' @ format_language (language ?b)) RED]\<rparr>"
  let ?kids = "if join newline content = [] then [] else [Text (join newline content)]"
  have d: "CodeBlockDirective_run [] content = [Element ?b ?kids]"
    by (simp add: CodeBlockDirective_run_def Let_def)
  have c: "node_has_class ?b [''code-block'']" by (simp add: node_has_class_def)
  then have i: "is_code_block ?b" by (simp add: is_code_block_def)
  have r: "registry strict_warnings (language ?b) = None"
    by (simp add: registry_def checkers_def)
  then have o: "spec_outcome env strict_warnings ?b = UnknownLanguage (Some [])"
    by (simp add: spec_outcome_def)
  have v: "visit_literal_block env strict_warnings filename ?b s = (Raise SkipNode, ?s')"
    by (rule visit_unknown[OF c r])
  then have w: "walkabout env strict_warnings filename (Element ?b ?kids) s = (Return (), ?s')"
    by (simp add: dispatch_visit_def)
  have e: "stderr ?s' = stderr s @ [colored env ''Unknown language: '' RED]"
    by (simp add: format_language_def)
  have f: "count_failures (summary ?s') =
             count_failures (summary s) + (if strict_warnings then 1 else 0)"
    by (simp add: count_failures_def)
  have l: "language ?b = Some []" "rawsource ?b = join newline content"
    "summary ?s' = summary s @ (if strict_warnings then [False] else [])" by simp_all
  from d i l r o v w e f show ?thesis
    by - (rule exI[of _ ?b], rule exI[of _ ?kids], rule exI[of _ ?s'], intro conjI refl,
          assumption+)
qed

text \<open>
  C9.  Two runs on machines that give the same file contents, whose parser answers alike
  and whose checkers decide alike for every command template and text (the same error,
  or the same answer to whether the return code is zero) give the same result of
  \<open>check\<close> for a file, the same result of \<open>main\<close> and the same exit status, for every
  setting of the flags; the runs may differ in the names of the temporary files, in
  whether standard error is a terminal and in what was printed before.
\<close>

theorem runs_agree:
  assumes "read_file e1 = read_file e2"
    and "parse e1 = parse e2"
    and "\<forall>extension arguments t.
           checker_verdict e1 extension arguments t = checker_verdict e2 extension arguments t"
  shows "fst (check e1 filename strict_rst strict_warnings err1)
           = fst (check e2 filename strict_rst strict_warnings err2)
       \<and> fst (main e1 files strict_rst strict_warnings err1)
           = fst (main e2 files strict_rst strict_warnings err2)
       \<and> exit_status (fst (main e1 files strict_rst strict_warnings err1))
           = exit_status (fst (main e2 files strict_rst strict_warnings err2))"
proof -
  from assms(3) have v: "\<And>extension arguments t.
      checker_verdict e1 extension arguments t = checker_verdict e2 extension arguments t"
    by blast
  have c: "fst (check e1 filename strict_rst strict_warnings err1)
             = fst (check e2 filename strict_rst strict_warnings err2)"
    by (rule check_agree[OF v assms(1,2)])
  obtain r1 t1 where f1: "check_files e1 strict_rst strict_warnings files [] err1 = (r1, t1)"
    by force
  obtain r2 t2 where f2: "check_files e2 strict_rst strict_warnings files [] err2 = (r2, t2)"
    by force
  from check_files_agree[OF v assms(1,2), of strict_rst strict_warnings files "[]" err1 err2] f1 f2
  have "r1 = r2" by simp
  with f2 have f2': "check_files e2 strict_rst strict_warnings files [] err2 = (r1, t2)"
    by simp
  have m: "fst (main e1 files strict_rst strict_warnings err1)
             = fst (main e2 files strict_rst strict_warnings err2)"
  proof (cases r1)
    case (Return xs)
    with f1 f2' show ?thesis by (simp add: main_def Let_def)
  next
    case (Raise e)
    with f1 f2' show ?thesis by (simp add: main_def)
  qed
  then have "exit_status (fst (main e1 files strict_rst strict_warnings err1))
               = exit_status (fst (main e2 files strict_rst strict_warnings err2))"
    by simp
  with c m show ?thesis by (intro conjI)
qed

theorem runs_agree_witness:
  "read_file sample_os = read_file terminal_os
   \<and> parse sample_os = parse terminal_os
   \<and> (\<forall>extension arguments t.
         checker_verdict sample_os extension arguments t
           = checker_verdict terminal_os extension arguments t)
   \<and> NamedTemporaryFile sample_os ''.c'' ''int x;'' \<noteq> NamedTemporaryFile terminal_os ''.c'' ''int x;''
   \<and> snd (check sample_os ''doc.rst'' False True []) \<noteq> snd (check terminal_os ''doc.rst'' False True [])
   \<and> fst (check sample_os ''doc.rst'' False True []) = fst (check terminal_os ''doc.rst'' False True [])
   \<and> fst (main sample_os [''doc.rst'', ''doc.rst''] False True [])
       = fst (main terminal_os [''doc.rst'', ''doc.rst''] False True [])
   \<and> exit_status (fst (main sample_os [''doc.rst'', ''doc.rst''] False True []))
       = exit_status (fst (main terminal_os [''doc.rst'', ''doc.rst''] False True []))"
proof -
  have h1: "read_file sample_os = read_file terminal_os"
    by (simp add: sample_os_def terminal_os_def)
  have h2: "parse sample_os = parse terminal_os"
    by (simp add: sample_os_def terminal_os_def)
  have h3: "\<forall>extension arguments t.
         checker_verdict sample_os extension arguments t
           = checker_verdict terminal_os extension arguments t"
  proof (intro allI)
    fix extension arguments t
    show "checker_verdict sample_os extension arguments t
            = checker_verdict terminal_os extension arguments t"
    proof -
      have n: "NamedTemporaryFile sample_os extension t = Inr (''/tmp/tmpa1'' @ extension)"
        "NamedTemporaryFile terminal_os extension t = Inr (''/tmp/tmpb2'' @ extension)"
        by (simp_all add: sample_os_def terminal_os_def)
      have p: "Popen sample_os = sample_popen" "Popen terminal_os = sample_popen"
        by (simp_all add: sample_os_def terminal_os_def)
      have d: "decode sample_os = sample_decode" "decode terminal_os = sample_decode"
        by (simp_all add: sample_os_def terminal_os_def)
      have q: "sample_popen (arguments @ [''/tmp/tmpa1'' @ extension])
                 = sample_popen (arguments @ [''/tmp/tmpb2'' @ extension])"
        by (cases arguments) (simp_all add: sample_popen_def)
      show ?thesis unfolding checker_verdict_def n p d using q by simp
    qed
  qed
  have d1: "NamedTemporaryFile sample_os ''.c'' ''int x;''
              \<noteq> NamedTemporaryFile terminal_os ''.c'' ''int x;''"
    by (simp add: sample_os_def terminal_os_def)
  have d2: "snd (check sample_os ''doc.rst'' False True [])
              \<noteq> snd (check terminal_os ''doc.rst'' False True [])"
    by code_simp
  note r = runs_agree[OF h1 h2 h3, of "''doc.rst''" False True "[]" "[]" "[''doc.rst'', ''doc.rst'']"]
  from h1 h2 h3 d1 d2 r[THEN conjunct1] r[THEN conjunct2, THEN conjunct1]
    r[THEN conjunct2, THEN conjunct2]
  show ?thesis by (intro conjI)
qed

text \<open>
  C10.  A literal block with the class \<open>code-block\<close> and no \<open>language\<close> attribute: the
  language read is \<open>None\<close>, the registry has no entry for it, and the visit takes the
  path of an unknown language: it reports \<open>Unknown language: None\<close> in red, appends
  \<open>False\<close> to the summary exactly under strict warnings and ends with the skip signal,
  so that the walk over the block returns; no error is raised.
\<close>

theorem block_without_language_attribute:
  assumes "is_code_block b"
    and "language b = None"
  shows "\<exists>s'. registry strict_warnings (language b) = None
            \<and> launch_error env strict_warnings b = None
            \<and> spec_outcome env strict_warnings b = UnknownLanguage None
            \<and> visit_literal_block env strict_warnings filename b s = (Raise SkipNode, s')
            \<and> walkabout env strict_warnings filename (Element b kids) s = (Return (), s')
            \<and> stderr s' = stderr s @ [colored env ''Unknown language: None'' RED]
            \<and> summary s' = summary s @ (if strict_warnings then [False] else [])"
proof -
  from assms(1) have c: "node_has_class b [''code-block'']" and t: "tagname b = ''literal_block''"
    by (simp_all add: is_code_block_def)
  let ?s' = "\<lparr>summary = summary s @ (if strict_warnings then [False] else []),
              stderr = stderr s @ [colored env (''Unknown language: '' @ format_language (language b)) RED]\<rparr>"
  from assms(2) have r: "registry strict_warnings (language b) = None"
    by (simp add: registry_def)
  then have le: "launch_error env strict_warnings b = None"
    by (simp add: launch_error_def)
  from r assms(2) have o: "spec_outcome env strict_warnings b = UnknownLanguage None"
    by (simp add: spec_outcome_def)
  have v: "visit_literal_block env strict_warnings filename b s = (Raise SkipNode, ?s')"
    by (rule visit_unknown[OF c r])
  with t have w: "walkabout env strict_warnings filename (Element b kids) s = (Return (), ?s')"
    by (simp add: dispatch_visit_def)
  from assms(2) have e: "stderr ?s' = stderr s @ [colored env ''Unknown language: None'' RED]"
    by (simp add: format_language_def)
  have "summary ?s' = summary s @ (if strict_warnings then [False] else [])" by simp
  with r le o v w e show ?thesis by blast
qed

theorem block_without_language_attribute_witness:
  "is_code_block bare_block
   \<and> language bare_block = None
   \<and> (\<exists>s'. registry True (language bare_block) = None
          \<and> launch_error sample_os True bare_block = None
          \<and> spec_outcome sample_os True bare_block = UnknownLanguage None
          \<and> visit_literal_block sample_os True ''doc.rst'' bare_block \<lparr>summary = [], stderr = []\<rparr>
               = (Raise SkipNode, s')
          \<and> walkabout sample_os True ''doc.rst'' (Element bare_block [Text ''x = 1''])
               \<lparr>summary = [], stderr = []\<rparr> = (Return (), s')
          \<and> stderr s' = stderr \<lparr>summary = [], stderr = []\<rparr>
               @ [colored sample_os ''Unknown language: None'' RED]
          \<and> summary s' = summary \<lparr>summary = [], stderr = []\<rparr> @ (if True then [False] else []))"
proof -
  have h1: "is_code_block bare_block" by code_simp
  have h2: "language bare_block = None" by code_simp
  from h1 h2 block_without_language_attribute[OF h1 h2, where strict_warnings = True
      and env = sample_os and filename = "''doc.rst''" and kids = "[Text ''x = 1'']"
      and s = "\<lparr>summary = [], stderr = []\<rparr>"]
  show ?thesis by (intro conjI)
qed

end
